theory Spec2Isabelle
  imports Complex_Main
begin

section \<open>Python values used by \<open>pyrandr2/randr.py\<close>\<close>

text \<open>
  The module is dynamically typed. The embedding fixes the types its docstrings give:
  names, rotations and position parts are \<open>str\<close>, resolutions are pairs of \<open>int\<close>.
  Wherever the source itself stores \<open>None\<close> in such a slot (\<open>rotation = None\<close>,
  \<open>position = (None, None)\<close>, a regex group that did not match) the slot has the
  type \<open>pystr\<close>: \<open>None\<close> is Python's \<open>None\<close>, \<open>Some s\<close> the string \<open>s\<close>.
  A \<open>char\<close> stands for one code point below 256.
\<close>

type_synonym pystr = "string option"

text \<open>
  Every exception of the module is a \<open>ValueError\<close> told apart by its message (its first
  argument); the further arguments are not modelled. The other constructors are the
  exceptions Python itself raises on the paths below, and the failure of the external
  process.
\<close>

datatype error =
    ValueError string
  | KeyError string
  | AttributeError
  | TypeError
  | CalledProcessError
  | OtherError string

subsection \<open>\<open>str.lower\<close>, \<open>str.strip\<close>, \<open>str.format\<close> on integers\<close>

definition lower_char :: "char \<Rightarrow> char" where
  "lower_char c =
     (let n = (of_char c :: nat)
      in if (65 \<le> n \<and> n \<le> 90) \<or> (192 \<le> n \<and> n \<le> 222 \<and> n \<noteq> 215)
         then char_of (n + 32) else c)"

definition lower :: "string \<Rightarrow> string" where
  "lower s = map lower_char s"

definition is_space :: "char \<Rightarrow> bool" where
  "is_space c =
     (let n = (of_char c :: nat)
      in (9 \<le> n \<and> n \<le> 13) \<or> (28 \<le> n \<and> n \<le> 32) \<or> n = 133 \<or> n = 160)"

definition strip :: "string \<Rightarrow> string" where
  "strip s = rev (dropWhile is_space (rev (dropWhile is_space s)))"

definition digit_char :: "nat \<Rightarrow> char" where
  "digit_char n = char_of (48 + n)"

function str_nat :: "nat \<Rightarrow> string" where
  "str_nat n = (if n < 10 then [digit_char n] else str_nat (n div 10) @ [digit_char (n mod 10)])"
  by pat_completeness auto
termination
  by (relation "measure id") auto

declare str_nat.simps [simp del]

definition str_int :: "int \<Rightarrow> string" where
  "str_int i = (if i < 0 then CHR ''-'' # str_nat (nat (- i)) else str_nat (nat i))"

section \<open>\<open>class Mode\<close>\<close>

record Mode =
  width :: int
  height :: int
  freq :: real
  current :: bool
  preferred :: bool

text \<open>\<open>Mode.resolution(string=False)\<close> and \<open>Mode.resolution(string=True)\<close>.\<close>

definition mode_resolution :: "Mode \<Rightarrow> int \<times> int" where
  "mode_resolution m = (width m, height m)"

definition mode_resolution_str :: "Mode \<Rightarrow> string" where
  "mode_resolution_str m = str_int (width m) @ ''x'' @ str_int (height m)"

section \<open>\<open>class ScreenSettings\<close>\<close>

text \<open>The dictionary \<open>change_table\<close> has five fixed keys; each is a field here.\<close>

record change_table =
  ch_resolution :: bool
  ch_is_primary :: bool
  ch_is_enabled :: bool
  ch_rotation :: bool
  ch_position :: bool

record ScreenSettings =
  name :: pystr
  resolution :: "int \<times> int"
  is_primary :: bool
  is_enabled :: bool
  rotation :: pystr
  position :: "pystr \<times> pystr"
  is_connected :: bool
  curr_mode :: "Mode option"
  modes :: "Mode list"
  change_table :: change_table

definition no_changes :: change_table where
  "no_changes = \<lparr>ch_resolution = False, ch_is_primary = False, ch_is_enabled = False,
                  ch_rotation = False, ch_position = False\<rparr>"

text \<open>\<open>ScreenSettings.__init__\<close>.\<close>

definition ScreenSettings_init :: ScreenSettings where
  "ScreenSettings_init =
     \<lparr>name = None, resolution = (0, 0), is_primary = False, is_enabled = True,
      rotation = None, position = (None, None), is_connected = True,
      curr_mode = None, modes = [], change_table = no_changes\<rparr>"

text \<open>\<open>any(self.is_changed.values())\<close>.\<close>

definition any_changed :: "change_table \<Rightarrow> bool" where
  "any_changed t =
     (ch_resolution t \<or> ch_is_primary t \<or> ch_is_enabled t \<or> ch_rotation t \<or> ch_position t)"

section \<open>\<open>class RotateDirection\<close> and \<open>class PositionType\<close>\<close>

definition rotation_table :: "(int \<times> string) list" where
  "rotation_table = [(0, ''normal''), (90, ''right''), (180, ''inverted''), (270, ''left'')]"

definition inverted_rot :: "(string \<times> int) list" where
  "inverted_rot = map (\<lambda>(k, v). (v, k)) rotation_table"

text \<open>
  \<open>RotateDirection.__getitem__\<close> dispatches on the type of its argument; the two typed
  branches are two functions. Anything that is neither \<open>int\<close> nor \<open>str\<close> reaches the
  final \<open>raise\<close>.
\<close>

definition RotateDirection_getitem_int :: "int \<Rightarrow> error + string" where
  "RotateDirection_getitem_int item =
     (case map_of rotation_table item of
        Some s \<Rightarrow> Inr s
      | None \<Rightarrow> Inl (ValueError ''Invalid rotation ''))"

definition RotateDirection_getitem_str :: "string \<Rightarrow> error + int" where
  "RotateDirection_getitem_str item =
     (case map_of inverted_rot (strip (lower item)) of
        Some k \<Rightarrow> Inr k
      | None \<Rightarrow> Inl (ValueError ''Invalid rotation ''))"

definition positions :: "(string \<times> string) list" where
  "positions = [(''leftof'', ''--left-of''), (''rightof'', ''--right-of''),
                (''above'', ''--above''), (''below'', ''--below''),
                (''sameas'', ''--same-as'')]"

text \<open>\<open>PositionType.__getitem__\<close>; \<open>None\<close> is not a \<open>str\<close> and reaches the \<open>raise\<close>.\<close>

definition PositionType_getitem :: "pystr \<Rightarrow> error + string" where
  "PositionType_getitem item =
     (case item of
        None \<Rightarrow> Inl (ValueError ''Invalid position'')
      | Some s \<Rightarrow>
          (case map_of positions (lower s) of
             Some flag \<Rightarrow> Inr flag
           | None \<Rightarrow> Inl (ValueError ''Invalid position'')))"

section \<open>\<open>class Display\<close>: the guarded setters\<close>

text \<open>
  A \<open>Display\<close> object is its \<open>ScreenSettings\<close>; the two converters it also holds have no
  state. A setter returns the exception it raised, if any, and the object as the call
  left it.
\<close>

type_synonym outcome = "error option \<times> ScreenSettings"

definition set_position :: "pystr \<times> pystr \<Rightarrow> ScreenSettings \<Rightarrow> outcome" where
  "set_position new_pos d =
     (if new_pos \<noteq> position d then
        (case fst new_pos of
           None \<Rightarrow> (Some AttributeError, d)
         | Some s \<Rightarrow>
             (None, d\<lparr>position := (Some (lower s), snd new_pos),
                      change_table := (change_table d)\<lparr>ch_position := True\<rparr>\<rparr>))
      else (None, d))"

definition set_is_enabled :: "bool \<Rightarrow> ScreenSettings \<Rightarrow> ScreenSettings" where
  "set_is_enabled enable d =
     (if enable \<noteq> is_enabled d then
        d\<lparr>is_enabled := \<not> is_enabled d,
          change_table := (change_table d)\<lparr>ch_is_enabled := \<not> ch_is_enabled (change_table d)\<rparr>\<rparr>
      else d)"

definition set_is_primary :: "bool \<Rightarrow> ScreenSettings \<Rightarrow> ScreenSettings" where
  "set_is_primary primary d =
     (if primary \<noteq> is_primary d then
        d\<lparr>is_primary := \<not> is_primary d,
          change_table := (change_table d)\<lparr>ch_is_primary := \<not> ch_is_primary (change_table d)\<rparr>\<rparr>
      else d)"

text \<open>\<open>Display.available_resolutions(string=False)\<close> and \<open>Display.check_resolution\<close>.\<close>

definition available_resolutions :: "ScreenSettings \<Rightarrow> (int \<times> int) list" where
  "available_resolutions d = map mode_resolution (modes d)"

definition check_resolution :: "int \<times> int \<Rightarrow> ScreenSettings \<Rightarrow> error option" where
  "check_resolution new_res d =
     (if new_res \<notin> set (available_resolutions d)
      then Some (ValueError ''Requested resolution is not supported'')
      else None)"

definition set_resolution :: "int \<times> int \<Rightarrow> bool \<Rightarrow> ScreenSettings \<Rightarrow> outcome" where
  "set_resolution new_res custom d =
     (if \<not> is_enabled d \<and> \<not> ch_is_enabled (change_table d) then
        (Some (ValueError ''The Screen is off''), d)
      else if new_res \<noteq> resolution d then
        (case (if \<not> custom then check_resolution new_res d else None) of
           Some e \<Rightarrow> (Some e, d)
         | None \<Rightarrow>
             (None, d\<lparr>resolution := new_res,
                      change_table := (change_table d)\<lparr>ch_resolution := True\<rparr>\<rparr>))
      else (None, d))"

text \<open>
  The argument of the rotation setter is an \<open>int\<close> (degrees), or a \<open>str\<close> or \<open>None\<close>
  that is stored as it is.
\<close>

datatype direction = Degrees int | Symbol pystr

definition set_rotation :: "direction \<Rightarrow> ScreenSettings \<Rightarrow> outcome" where
  "set_rotation direction d =
     (case (case direction of
              Degrees i \<Rightarrow> map_sum id Some (RotateDirection_getitem_int i)
            | Symbol s \<Rightarrow> Inr s) of
        Inl e \<Rightarrow> (Some e, d)
      | Inr direction' \<Rightarrow>
          (if direction' \<noteq> rotation d then
             (None, d\<lparr>rotation := direction',
                      change_table := (change_table d)\<lparr>ch_rotation := True\<rparr>\<rparr>)
           else (None, d)))"

section \<open>\<open>Display.build_cmd\<close>\<close>

text \<open>
  A command is a list of Python values that are strings, or \<open>None\<close> where the source
  appends a field holding \<open>None\<close>. The result \<open>Inr None\<close> is the source's \<open>return False\<close>.
\<close>

type_synonym token = pystr

definition format_resolution :: "int \<times> int \<Rightarrow> string" where
  "format_resolution r = str_int (fst r) @ ''x'' @ str_int (snd r)"

definition build_cmd :: "ScreenSettings \<Rightarrow> error + token list option" where
  "build_cmd d =
     (if any_changed (change_table d) then
        (let cmd = [Some ''xrandr'', Some ''--output'', name d]
         in if ch_is_enabled (change_table d) \<and> \<not> is_enabled d then
              Inr (Some (cmd @ [Some ''--off'']))
            else
              (let cmd = (if ch_resolution (change_table d)
                          then cmd @ [Some ''--mode'', Some (format_resolution (resolution d))]
                          else cmd @ [Some ''--auto'']);
                   cmd = (if is_primary d \<and> ch_is_primary (change_table d)
                          then cmd @ [Some ''--primary''] else cmd);
                   cmd = (if ch_rotation (change_table d)
                          then cmd @ [Some ''--rotate'', rotation d] else cmd)
               in if ch_position (change_table d) then
                    (case PositionType_getitem (fst (position d)) of
                       Inl e \<Rightarrow> Inl e
                     | Inr flag \<Rightarrow> Inr (Some (cmd @ [Some flag, snd (position d)])))
                  else Inr (Some cmd)))
      else Inr None)"

section \<open>The external tool\<close>

text \<open>
  \<open>exec_cmd\<close> runs a process (\<open>subprocess.check_output\<close>) and \<open>parse_xrandr\<close> reads its
  output with regular expressions. Both are parameters of the model: the state \<open>'w\<close> of
  the display server, what a command does to it and prints, and what \<open>parse_xrandr(lines,
  raw=True)\<close> makes of the printed lines. A failed process still leaves its effect on
  \<open>'w\<close>.
\<close>

text \<open>
  One dictionary of \<open>parse_xrandr(lines, raw=True)\<close>: the groups \<open>out\<close>, \<open>pr\<close> and
  \<open>rot\<close> of the regular expression are always keys, \<open>pr\<close> and \<open>rot\<close> with the value
  \<open>None\<close> when they did not match; the key \<open>modes\<close> is added only once a mode line was
  read, so \<open>r_modes = None\<close> is a dictionary without it. A caller of \<open>Display\<close> or
  \<open>update_setting\<close> may pass any list under \<open>modes\<close>, also the empty one.
\<close>

record raw_setting =
  r_out :: string
  r_pr :: pystr
  r_rot :: pystr
  r_modes :: "Mode list option"

record 'w sys =
  exec_cmd :: "token list \<Rightarrow> 'w \<Rightarrow> (error + string list) \<times> 'w"
  parse_xrandr :: "string list \<Rightarrow> error + raw_setting list"

definition get_display_data ::
  "'w sys \<Rightarrow> pystr \<Rightarrow> 'w \<Rightarrow> (error + raw_setting) \<times> 'w" where
  "get_display_data sys output w =
     (case exec_cmd sys [Some ''xrandr''] w of
        (Inl e, w') \<Rightarrow> (Inl e, w')
      | (Inr lines, w') \<Rightarrow>
          (case parse_xrandr sys lines of
             Inl e \<Rightarrow> (Inl e, w')
           | Inr items \<Rightarrow>
               (case find (\<lambda>item. Some (r_out item) = output) items of
                  Some item \<Rightarrow> (Inr item, w')
                | None \<Rightarrow> (Inl (ValueError ''Invalid output''), w'))))"

section \<open>\<open>Display.update_setting\<close> and \<open>Display.apply_settings\<close>\<close>

text \<open>\<open>Display.__reset_change_table\<close>.\<close>

definition reset_change_table :: "ScreenSettings \<Rightarrow> ScreenSettings" where
  "reset_change_table d = d\<lparr>change_table := no_changes\<rparr>"

text \<open>
  The loop of \<open>update_setting\<close> over \<open>raw_setting['modes']\<close>, on the value of
  \<open>curr_mode\<close>: a current mode is stored and ends the loop, any other mode stores
  \<open>None\<close>; with no mode left the loop ends.
\<close>

fun scan_modes :: "Mode list \<Rightarrow> Mode option \<Rightarrow> Mode option" where
  "scan_modes [] cur = cur"
| "scan_modes (m # ms) cur = (if current m then Some m else scan_modes ms None)"

text \<open>Truth value of a string or \<open>None\<close>.\<close>

definition truthy :: "pystr \<Rightarrow> bool" where
  "truthy v = (case v of None \<Rightarrow> False | Some s \<Rightarrow> s \<noteq> [])"

text \<open>
  The body of \<open>update_setting\<close> from \<open>self.__cfg.modes = raw_setting['modes']\<close> on.
  A \<open>Mode\<close> object is always true, so \<open>bool(curr_mode)\<close> is \<open>curr_mode \<noteq> None\<close>.
\<close>

definition update_from :: "raw_setting \<Rightarrow> ScreenSettings \<Rightarrow> outcome" where
  "update_from raw d =
     (case r_modes raw of
        None \<Rightarrow> (Some (KeyError ''modes''), d)
      | Some ms \<Rightarrow>
          (let d = d\<lparr>modes := ms\<rparr>;
               d = d\<lparr>curr_mode := scan_modes ms (curr_mode d)\<rparr>;
               d = d\<lparr>is_enabled := (curr_mode d \<noteq> None)\<rparr>;
               d = d\<lparr>is_connected := (modes d \<noteq> [])\<rparr>
           in case (if truthy (r_rot raw) then Inr (r_rot raw)
                    else map_sum id Some (RotateDirection_getitem_int 0)) of
                Inl e \<Rightarrow> (Some e, d)
              | Inr rot \<Rightarrow>
                  (let d = d\<lparr>rotation := rot\<rparr>;
                       d = d\<lparr>is_primary := truthy (r_pr raw)\<rparr>;
                       d = (case curr_mode d of
                              Some m \<Rightarrow> if is_enabled d then d\<lparr>resolution := mode_resolution m\<rparr>
                                        else d
                            | None \<Rightarrow> d)
                   in (None, reset_change_table d))))"

text \<open>\<open>raw_setting = None\<close> is the default argument: the display is queried.\<close>

definition update_setting ::
  "'w sys \<Rightarrow> raw_setting option \<Rightarrow> ScreenSettings \<Rightarrow> 'w \<Rightarrow> outcome \<times> 'w" where
  "update_setting sys raw_setting d w =
     (case raw_setting of
        Some raw \<Rightarrow> (update_from raw d, w)
      | None \<Rightarrow>
          (case get_display_data sys (name d) w of
             (Inl e, w') \<Rightarrow> ((Some e, d), w')
           | (Inr raw, w') \<Rightarrow> (update_from raw d, w')))"

text \<open>\<open>Display.__init__\<close>.\<close>

definition Display_init ::
  "'w sys \<Rightarrow> pystr \<Rightarrow> raw_setting option \<Rightarrow> 'w \<Rightarrow> outcome \<times> 'w" where
  "Display_init sys nm raw_setting w =
     update_setting sys raw_setting (ScreenSettings_init\<lparr>name := nm\<rparr>) w"

text \<open>
  \<open>Display.apply_settings\<close>, its argument \<open>default\<close> written \<open>use_default\<close>. Inside the test \<open>any(...)\<close> the result of \<open>build_cmd\<close> is
  a command; \<open>False\<close> there would make \<open>check_output\<close> raise \<open>TypeError\<close>.
\<close>

definition apply_settings ::
  "'w sys \<Rightarrow> bool \<Rightarrow> ScreenSettings \<Rightarrow> 'w \<Rightarrow> outcome \<times> 'w" where
  "apply_settings sys use_default d w =
     (case (if use_default then
              exec_cmd sys [Some ''xrandr'', Some ''--output'', name d, Some ''--auto''] w
            else if any_changed (change_table d) then
              (case build_cmd d of
                 Inl e \<Rightarrow> (Inl e, w)
               | Inr None \<Rightarrow> (Inl TypeError, w)
               | Inr (Some cmd) \<Rightarrow> exec_cmd sys cmd w)
            else (Inr [], w)) of
        (Inl e, w') \<Rightarrow> ((Some e, d), w')
      | (Inr lines, w') \<Rightarrow>
          (case update_setting sys None d w' of
             ((Some e, d'), w'') \<Rightarrow> ((Some e, d'), w'')
           | ((None, d'), w'') \<Rightarrow> ((None, reset_change_table d'), w'')))"

subsection \<open>Two display servers for concrete runs\<close>

text \<open>
  \<open>failing_sys\<close>: every process exits with an error. \<open>static_sys items\<close>: every process
  succeeds and prints nothing, and a query reports \<open>items\<close>.
\<close>

definition failing_sys :: "unit sys" where
  "failing_sys = \<lparr>exec_cmd = (\<lambda>cmd w. (Inl CalledProcessError, w)),
                  parse_xrandr = (\<lambda>lines. Inr [])\<rparr>"

definition static_sys :: "raw_setting list \<Rightarrow> unit sys" where
  "static_sys items = \<lparr>exec_cmd = (\<lambda>cmd w. (Inr [], w)),
                       parse_xrandr = (\<lambda>lines. Inr items)\<rparr>"

text \<open>The display of the scenarios: one mode, current and preferred.\<close>

definition mode_1080 :: Mode where
  "mode_1080 = \<lparr>width = 1920, height = 1080, freq = 60, current = True, preferred = True\<rparr>"

definition raw_hdmi :: raw_setting where
  "raw_hdmi = \<lparr>r_out = ''HDMI-1'', r_pr = None, r_rot = Some ''normal'',
               r_modes = Some [mode_1080]\<rparr>"

definition hdmi :: ScreenSettings where
  "hdmi = snd (fst (Display_init failing_sys (Some ''HDMI-1'') (Some raw_hdmi) ()))"

definition hdmi_rotated :: ScreenSettings where
  "hdmi_rotated = snd (set_rotation (Degrees 90) hdmi)"

text \<open>A connected display that is off: its only mode is not current.\<close>

definition mode_720_idle :: Mode where
  "mode_720_idle = \<lparr>width = 1280, height = 720, freq = 60, current = False, preferred = True\<rparr>"

definition raw_off :: raw_setting where
  "raw_off = \<lparr>r_out = ''VGA-1'', r_pr = None, r_rot = None, r_modes = Some [mode_720_idle]\<rparr>"

definition vga_off :: ScreenSettings where
  "vga_off = snd (fst (Display_init failing_sys (Some ''VGA-1'') (Some raw_off) ()))"

text \<open>A query record for \<open>HDMI-1\<close> that lists no mode.\<close>

definition raw_no_modes :: raw_setting where
  "raw_no_modes = \<lparr>r_out = ''HDMI-1'', r_pr = None, r_rot = Some ''normal'', r_modes = Some []\<rparr>"

text \<open>
  \<open>tracking_sys\<close>: a display server whose state records whether a configuring command
  has run. Every process succeeds; a query prints the rotation, \<open>right\<close> once a
  command has run, and \<open>parse_xrandr\<close> reads it into the record of \<open>HDMI-1\<close>.
\<close>

definition raw_hdmi_right :: raw_setting where
  "raw_hdmi_right = raw_hdmi\<lparr>r_rot := Some ''right''\<rparr>"

definition tracking_sys :: "bool sys" where
  "tracking_sys =
     \<lparr>exec_cmd = (\<lambda>cmd w. if cmd = [Some ''xrandr'']
                           then (Inr [if w then ''right'' else ''normal''], w)
                           else (Inr [], True)),
      parse_xrandr = (\<lambda>lines. Inr [if lines = [''right''] then raw_hdmi_right else raw_hdmi])\<rparr>"

text \<open>\<open>HDMI-1\<close> with a position pending whose direction no flag exists for.\<close>

definition hdmi_bad_position :: ScreenSettings where
  "hdmi_bad_position = snd (set_position (Some ''Diagonal'', Some ''DP-1'') hdmi)"

text \<open>The display that was off when queried, switched on and rotated since.\<close>

definition vga_switched_on :: ScreenSettings where
  "vga_switched_on = snd (set_rotation (Degrees 90) (set_is_enabled True vga_off))"

section \<open>Evaluation of the converters and of the concrete displays\<close>

lemma getitem_int_0: "RotateDirection_getitem_int 0 = Inr ''normal''"
  by (simp add: RotateDirection_getitem_int_def rotation_table_def)

lemma getitem_int_90: "RotateDirection_getitem_int 90 = Inr ''right''"
  by (simp add: RotateDirection_getitem_int_def rotation_table_def)

lemma getitem_int_ok:
  "(\<exists>s. RotateDirection_getitem_int i = Inr s) \<longleftrightarrow> i \<in> {0, 90, 180, 270}"
  by (simp add: RotateDirection_getitem_int_def rotation_table_def)

lemma lower_LeftOf: "lower ''LeftOf'' = ''leftof''"
  by code_simp

lemma getitem_leftof: "PositionType_getitem (Some ''leftof'') = Inr ''--left-of''"
  by code_simp

lemma hdmi_fields:
  "hdmi = \<lparr>name = Some ''HDMI-1'', resolution = (1920, 1080), is_primary = False,
      is_enabled = True, rotation = Some ''normal'', position = (None, None),
      is_connected = True, curr_mode = Some mode_1080, modes = [mode_1080],
      change_table = no_changes\<rparr>"
  by (simp add: hdmi_def Display_init_def update_setting_def update_from_def raw_hdmi_def
      ScreenSettings_init_def mode_1080_def truthy_def reset_change_table_def
      mode_resolution_def)

lemma vga_off_fields:
  "vga_off = \<lparr>name = Some ''VGA-1'', resolution = (0, 0), is_primary = False,
      is_enabled = False, rotation = Some ''normal'', position = (None, None),
      is_connected = True, curr_mode = None, modes = [mode_720_idle],
      change_table = no_changes\<rparr>"
  by (simp add: vga_off_def Display_init_def update_setting_def update_from_def raw_off_def
      ScreenSettings_init_def mode_720_idle_def truthy_def reset_change_table_def
      getitem_int_0)

lemma hdmi_rotated_fields:
  "hdmi_rotated = hdmi\<lparr>rotation := Some ''right'',
      change_table := no_changes\<lparr>ch_rotation := True\<rparr>\<rparr>"
  by (simp add: hdmi_rotated_def set_rotation_def getitem_int_90 hdmi_fields)

lemma lower_Diagonal: "lower ''Diagonal'' = ''diagonal''"
  by code_simp

lemma getitem_diagonal:
  "PositionType_getitem (Some ''diagonal'') = Inl (ValueError ''Invalid position'')"
  by code_simp

lemma hdmi_bad_position_fields:
  "hdmi_bad_position = hdmi\<lparr>position := (Some ''diagonal'', Some ''DP-1''),
      change_table := no_changes\<lparr>ch_position := True\<rparr>\<rparr>"
  by (simp add: hdmi_bad_position_def set_position_def hdmi_fields lower_Diagonal)

lemma vga_switched_on_fields:
  "vga_switched_on = vga_off\<lparr>is_enabled := True, rotation := Some ''right'',
      change_table := no_changes\<lparr>ch_is_enabled := True, ch_rotation := True\<rparr>\<rparr>"
  by (simp add: vga_switched_on_def set_rotation_def set_is_enabled_def getitem_int_90
      vga_off_fields no_changes_def)

section \<open>The guarded setters\<close>

text \<open>
  C4, as amended. Assigning a property the value it holds changes neither the value nor
  the change table, and raises nothing for position, \<open>is_enabled\<close>, \<open>is_primary\<close> and
  rotation. The resolution setter tests for a display that is off before it compares
  the values: on a display that is off with no change of \<open>is_enabled\<close> pending it
  raises, still changing nothing; in every other state the assignment is silent.
\<close>

theorem same_value_is_noop:
  "set_position (position d) d = (None, d) \<and>
   set_is_enabled (is_enabled d) d = d \<and>
   set_is_primary (is_primary d) d = d \<and>
   set_rotation (Symbol (rotation d)) d = (None, d) \<and>
   set_resolution (resolution d) custom d =
     (if \<not> is_enabled d \<and> \<not> ch_is_enabled (change_table d)
      then (Some (ValueError ''The Screen is off''), d) else (None, d))"
  by (simp add: set_position_def set_is_enabled_def set_is_primary_def set_rotation_def
      set_resolution_def)

theorem same_value_is_noop_witness:
  "set_position (position hdmi_rotated) hdmi_rotated = (None, hdmi_rotated) \<and>
   set_is_enabled True hdmi_rotated = hdmi_rotated \<and>
   set_is_primary False hdmi_rotated = hdmi_rotated \<and>
   set_rotation (Symbol (Some ''right'')) hdmi_rotated = (None, hdmi_rotated) \<and>
   set_resolution (1920, 1080) False hdmi_rotated = (None, hdmi_rotated)"
proof -
  have f: "is_enabled hdmi_rotated" "is_primary hdmi_rotated = False"
    "rotation hdmi_rotated = Some ''right''" "resolution hdmi_rotated = (1920, 1080)"
    by (simp_all add: hdmi_rotated_fields hdmi_fields)
  show ?thesis using same_value_is_noop [of hdmi_rotated False] by (simp add: f)
qed

text \<open>
  C4 as stated fails: the resolution setter raises on a display that is off, also for
  the value it holds.
\<close>

theorem same_resolution_counterexample:
  "\<not> is_enabled vga_off \<and>
   set_resolution (resolution vga_off) False vga_off =
     (Some (ValueError ''The Screen is off''), vga_off)"
  by (simp add: vga_off_fields set_resolution_def no_changes_def)

text \<open>
  The two boolean setters flip their entry of the change table on every call that
  changes the value; the other three setters set theirs and never clear it.
\<close>

lemma set_is_enabled_entry:
  "ch_is_enabled (change_table (set_is_enabled b d)) =
     (ch_is_enabled (change_table d) \<noteq> (is_enabled (set_is_enabled b d) \<noteq> is_enabled d))"
  by (simp add: set_is_enabled_def)

lemma set_is_primary_entry:
  "ch_is_primary (change_table (set_is_primary b d)) =
     (ch_is_primary (change_table d) \<noteq> (is_primary (set_is_primary b d) \<noteq> is_primary d))"
  by (simp add: set_is_primary_def)

lemma fold_set_is_enabled_entry:
  "ch_is_enabled (change_table (fold set_is_enabled bs d)) =
     (ch_is_enabled (change_table d) \<noteq> (is_enabled (fold set_is_enabled bs d) \<noteq> is_enabled d))"
proof (induction bs arbitrary: d)
  case Nil
  show ?case by simp
next
  case (Cons b bs)
  show ?case
    using Cons.IH [of "set_is_enabled b d"] set_is_enabled_entry [of b d]
    by auto
qed

lemma fold_set_is_primary_entry:
  "ch_is_primary (change_table (fold set_is_primary bs d)) =
     (ch_is_primary (change_table d) \<noteq> (is_primary (fold set_is_primary bs d) \<noteq> is_primary d))"
proof (induction bs arbitrary: d)
  case Nil
  show ?case by simp
next
  case (Cons b bs)
  show ?case
    using Cons.IH [of "set_is_primary b d"] set_is_primary_entry [of b d]
    by auto
qed

lemma set_resolution_entry:
  "ch_resolution (change_table d) \<or> resolution (snd (set_resolution r c d)) \<noteq> resolution d
     \<Longrightarrow> ch_resolution (change_table (snd (set_resolution r c d)))"
  by (auto simp: set_resolution_def split: option.splits if_splits)

lemma set_rotation_entry:
  "ch_rotation (change_table d) \<or> rotation (snd (set_rotation a d)) \<noteq> rotation d
     \<Longrightarrow> ch_rotation (change_table (snd (set_rotation a d)))"
  by (auto simp: set_rotation_def split: sum.splits direction.splits if_splits)

lemma set_position_entry:
  "ch_position (change_table d) \<or> position (snd (set_position p d)) \<noteq> position d
     \<Longrightarrow> ch_position (change_table (snd (set_position p d)))"
  by (auto simp: set_position_def split: option.splits if_splits)

text \<open>
  C2, as amended. For resolution, rotation and position a call that changes the stored
  value leaves the entry true, and an entry that is true stays true. For \<open>is_enabled\<close>
  and \<open>is_primary\<close> the entry after any sequence of calls \<open>bs\<close> is the entry before,
  flipped exactly when the stored value differs from the value before the sequence:
  from a settle point it is true exactly when the value differs from the settled one.
\<close>

theorem setters_mark_changes:
  "(resolution (snd (set_resolution r c d)) \<noteq> resolution d \<longrightarrow>
      ch_resolution (change_table (snd (set_resolution r c d)))) \<and>
   (rotation (snd (set_rotation a d)) \<noteq> rotation d \<longrightarrow>
      ch_rotation (change_table (snd (set_rotation a d)))) \<and>
   (position (snd (set_position p d)) \<noteq> position d \<longrightarrow>
      ch_position (change_table (snd (set_position p d)))) \<and>
   (ch_resolution (change_table d) \<longrightarrow>
      ch_resolution (change_table (snd (set_resolution r c d)))) \<and>
   (ch_rotation (change_table d) \<longrightarrow> ch_rotation (change_table (snd (set_rotation a d)))) \<and>
   (ch_position (change_table d) \<longrightarrow> ch_position (change_table (snd (set_position p d)))) \<and>
   ch_is_enabled (change_table (fold set_is_enabled bs d)) =
     (ch_is_enabled (change_table d) \<noteq> (is_enabled (fold set_is_enabled bs d) \<noteq> is_enabled d)) \<and>
   ch_is_primary (change_table (fold set_is_primary bs d)) =
     (ch_is_primary (change_table d) \<noteq> (is_primary (fold set_is_primary bs d) \<noteq> is_primary d))"
  using set_resolution_entry [of d r c] set_rotation_entry [of d a] set_position_entry [of d p]
    fold_set_is_enabled_entry [of bs d] fold_set_is_primary_entry [of bs d]
  by blast

theorem setters_mark_changes_witness:
  "resolution (snd (set_resolution (800, 600) True hdmi)) \<noteq> resolution hdmi \<and>
   ch_resolution (change_table (snd (set_resolution (800, 600) True hdmi))) \<and>
   rotation (snd (set_rotation (Degrees 90) hdmi)) \<noteq> rotation hdmi \<and>
   ch_rotation (change_table (snd (set_rotation (Degrees 90) hdmi))) \<and>
   position (snd (set_position (Some ''LeftOf'', Some ''DP-1'') hdmi)) \<noteq> position hdmi \<and>
   ch_position (change_table (snd (set_position (Some ''LeftOf'', Some ''DP-1'') hdmi))) \<and>
   ch_is_enabled (change_table (fold set_is_enabled [False, True, False] hdmi)) \<and>
   \<not> ch_is_primary (change_table (fold set_is_primary [True, False] hdmi))"
proof -
  have r: "resolution (snd (set_resolution (800, 600) True hdmi)) \<noteq> resolution hdmi"
    by (simp add: set_resolution_def hdmi_fields)
  have a: "rotation (snd (set_rotation (Degrees 90) hdmi)) \<noteq> rotation hdmi"
    by (simp add: set_rotation_def getitem_int_90 hdmi_fields)
  have p: "position (snd (set_position (Some ''LeftOf'', Some ''DP-1'') hdmi)) \<noteq> position hdmi"
    by (simp add: set_position_def hdmi_fields)
  have e: "is_enabled (fold set_is_enabled [False, True, False] hdmi) \<noteq> is_enabled hdmi"
    by (simp add: set_is_enabled_def hdmi_fields)
  have q: "is_primary (fold set_is_primary [True, False] hdmi) = is_primary hdmi"
    by (simp add: set_is_primary_def hdmi_fields)
  have c: "change_table hdmi = no_changes"
    by (simp add: hdmi_fields)
  show ?thesis
    using r a p e q
      setters_mark_changes [of "(800, 600)" True hdmi "Degrees 90"
        "(Some ''LeftOf'', Some ''DP-1'')" "[False, True, False]"]
      setters_mark_changes [of "(800, 600)" True hdmi "Degrees 90"
        "(Some ''LeftOf'', Some ''DP-1'')" "[True, False]"]
    by (simp add: c no_changes_def)
qed

text \<open>
  C2 as stated fails: from the settled display \<open>hdmi\<close>, switching it off and on again
  are two calls that each change \<open>is_enabled\<close>, and the entry is false after the second.
\<close>

theorem toggle_twice_counterexample:
  "change_table hdmi = no_changes \<and>
   is_enabled (set_is_enabled False hdmi) \<noteq> is_enabled hdmi \<and>
   is_enabled (set_is_enabled True (set_is_enabled False hdmi))
     \<noteq> is_enabled (set_is_enabled False hdmi) \<and>
   \<not> ch_is_enabled (change_table (set_is_enabled True (set_is_enabled False hdmi)))"
  by (simp add: set_is_enabled_def hdmi_fields no_changes_def)

text \<open>
  C7, as amended. On an enabled display, a resolution that is not among those of
  \<open>modes\<close> and differs from the stored resolution is refused with the \<open>ValueError\<close>
  for an unsupported resolution, and the object is as before: the stored resolution
  and the entry \<open>ch_resolution\<close> keep their values.
\<close>

theorem set_resolution_unsupported:
  assumes "is_enabled d" and "new_res \<notin> set (available_resolutions d)"
    and "new_res \<noteq> resolution d"
  shows "set_resolution new_res False d =
    (Some (ValueError ''Requested resolution is not supported''), d)"
  using assms by (simp add: set_resolution_def check_resolution_def)

theorem set_resolution_unsupported_witness:
  "is_enabled hdmi \<and> (800, 600) \<notin> set (available_resolutions hdmi) \<and>
   (800, 600) \<noteq> resolution hdmi \<and> \<not> ch_resolution (change_table hdmi) \<and>
   set_resolution (800, 600) False hdmi =
     (Some (ValueError ''Requested resolution is not supported''), hdmi)"
proof -
  have e: "is_enabled hdmi" by (simp add: hdmi_fields)
  have a: "(800, 600) \<notin> set (available_resolutions hdmi)"
    by (simp add: hdmi_fields available_resolutions_def mode_resolution_def mode_1080_def)
  have r: "(800, 600) \<noteq> resolution hdmi" by (simp add: hdmi_fields)
  have c: "\<not> ch_resolution (change_table hdmi)" by (simp add: hdmi_fields no_changes_def)
  show ?thesis using e a r c set_resolution_unsupported [OF e a r] by simp
qed

text \<open>
  C7 as stated fails: the display \<open>vga_off\<close> was off when queried, so its resolution is
  the initial \<open>(0, 0)\<close>, which no mode has; once it is switched on, assigning \<open>(0, 0)\<close>
  equals the stored value and returns before the check.
\<close>

theorem unlisted_resolution_counterexample:
  "is_enabled (set_is_enabled True vga_off) \<and>
   (0, 0) \<notin> set (available_resolutions (set_is_enabled True vga_off)) \<and>
   set_resolution (0, 0) False (set_is_enabled True vga_off) = (None, set_is_enabled True vga_off)"
  by (simp add: set_is_enabled_def vga_off_fields available_resolutions_def mode_resolution_def
      mode_720_idle_def set_resolution_def no_changes_def)

text \<open>
  C8. On a display with \<open>is_enabled\<close> false and no change of \<open>is_enabled\<close> recorded, the
  resolution setter raises \<open>ValueError('The Screen is off')\<close> for every argument and
  changes nothing. With the entry \<open>is_enabled\<close> of the change table true it never raises
  that error.
\<close>

theorem set_resolution_display_off:
  "(\<not> is_enabled d \<and> \<not> ch_is_enabled (change_table d) \<longrightarrow>
      set_resolution new_res custom d = (Some (ValueError ''The Screen is off''), d)) \<and>
   (ch_is_enabled (change_table d) \<longrightarrow>
      fst (set_resolution new_res custom d) \<noteq> Some (ValueError ''The Screen is off''))"
  by (simp add: set_resolution_def check_resolution_def split: option.splits)

theorem set_resolution_display_off_witness:
  "\<not> is_enabled vga_off \<and> \<not> ch_is_enabled (change_table vga_off) \<and>
   set_resolution (1280, 720) False vga_off = (Some (ValueError ''The Screen is off''), vga_off) \<and>
   \<not> is_enabled (set_is_enabled False hdmi) \<and>
   ch_is_enabled (change_table (set_is_enabled False hdmi)) \<and>
   fst (set_resolution (800, 600) False (set_is_enabled False hdmi))
     \<noteq> Some (ValueError ''The Screen is off'')"
proof -
  have a: "\<not> is_enabled vga_off \<and> \<not> ch_is_enabled (change_table vga_off)"
    by (simp add: vga_off_fields no_changes_def)
  have b: "ch_is_enabled (change_table (set_is_enabled False hdmi))"
    by (simp add: set_is_enabled_def hdmi_fields no_changes_def)
  have c: "\<not> is_enabled (set_is_enabled False hdmi)"
    by (simp add: set_is_enabled_def hdmi_fields)
  show ?thesis
    using a b c
      set_resolution_display_off [of vga_off "(1280, 720)" False]
      set_resolution_display_off [of "set_is_enabled False hdmi" "(800, 600)" False]
    by simp
qed

section \<open>Refresh\<close>

text \<open>
  Over a list that is not empty the loop of \<open>update_setting\<close> finds the first current
  mode of that list, whatever \<open>curr_mode\<close> held before.
\<close>

lemma scan_modes_None: "scan_modes ms None = find current ms"
  by (induction ms) simp_all

lemma scan_modes_first: "ms \<noteq> [] \<Longrightarrow> scan_modes ms cur = find current ms"
  by (cases ms) (simp_all add: scan_modes_None)

lemma scan_modes_member:
  assumes "ms \<noteq> []" and "scan_modes ms cur = Some m"
  shows "m \<in> set ms \<and> current m"
proof -
  from assms have "find current ms = Some m"
    by (simp add: scan_modes_first)
  then show ?thesis
    by (auto simp: find_Some_iff)
qed

lemma update_from_current_mode:
  assumes "r_modes raw = Some ms" and "ms \<noteq> []"
    and "update_from raw d = (None, d')" and "curr_mode d' = Some m"
  shows "modes d' = ms \<and> m \<in> set (modes d')"
proof -
  from assms(1,3) have "modes d' = ms" and "curr_mode d' = scan_modes ms (curr_mode d)"
    by (auto simp: update_from_def Let_def getitem_int_0 reset_change_table_def
        split: option.splits if_splits)
  with assms(2,4) scan_modes_member [of ms "curr_mode d" m] show ?thesis
    by simp
qed

text \<open>
  C3 does not hold of the code. The loop body is the only place that clears
  \<open>curr_mode\<close>, so a record whose mode list is empty leaves it as it was: refreshing the
  display \<open>hdmi\<close> from \<open>raw_no_modes\<close> installs the empty list of modes and keeps the
  mode of the earlier query as \<open>curr_mode\<close>, which is no element of \<open>modes\<close>.
\<close>

theorem stale_current_mode:
  "update_setting failing_sys (Some raw_no_modes) hdmi () =
     ((None, hdmi\<lparr>modes := [], is_connected := False\<rparr>), ()) \<and>
   curr_mode (hdmi\<lparr>modes := [], is_connected := False\<rparr>) = Some mode_1080 \<and>
   mode_1080 \<notin> set (modes (hdmi\<lparr>modes := [], is_connected := False\<rparr>))"
  by (simp add: update_setting_def update_from_def raw_no_modes_def hdmi_fields truthy_def
      reset_change_table_def mode_resolution_def mode_1080_def)

section \<open>Command synthesis\<close>

text \<open>
  C6. The display \<open>HDMI-1\<close> built from a record with the single mode 1920x1080 at 60 Hz,
  current and preferred, not primary, rotation \<open>normal\<close> (the fields of \<open>hdmi\<close> are
  those of \<open>hdmi_fields\<close>): assigning the rotation 90 raises nothing, and \<open>build_cmd\<close>
  then returns \<open>xrandr --output HDMI-1 --auto --rotate right\<close>.
\<close>

theorem rotate_90_command:
  "fst (set_rotation (Degrees 90) hdmi) = None \<and>
   build_cmd (snd (set_rotation (Degrees 90) hdmi)) =
     Inr (Some [Some ''xrandr'', Some ''--output'', Some ''HDMI-1'', Some ''--auto'',
                Some ''--rotate'', Some ''right''])"
  by (simp add: set_rotation_def getitem_int_90 hdmi_fields build_cmd_def any_changed_def
      no_changes_def)

text \<open>
  C5, as amended. On a display with \<open>is_enabled\<close> true and no change of \<open>is_enabled\<close>
  pending, whatever is pending for resolution, primary, rotation and position,
  \<open>build_cmd\<close> after \<open>is_enabled = False\<close> is exactly \<open>xrandr --output <name> --off\<close>.
\<close>

theorem disable_dominates:
  assumes "is_enabled d" and "\<not> ch_is_enabled (change_table d)"
  shows "build_cmd (set_is_enabled False d) =
    Inr (Some [Some ''xrandr'', Some ''--output'', name d, Some ''--off''])"
  using assms by (simp add: build_cmd_def set_is_enabled_def any_changed_def)

theorem disable_dominates_witness:
  "is_enabled hdmi_rotated \<and> \<not> ch_is_enabled (change_table hdmi_rotated) \<and>
   build_cmd (set_is_enabled False hdmi_rotated) =
    Inr (Some [Some ''xrandr'', Some ''--output'', Some ''HDMI-1'', Some ''--off''])"
proof -
  have e: "is_enabled hdmi_rotated"
    by (simp add: hdmi_rotated_fields hdmi_fields)
  have c: "\<not> ch_is_enabled (change_table hdmi_rotated)"
    by (simp add: hdmi_rotated_fields hdmi_fields no_changes_def)
  have n: "name hdmi_rotated = Some ''HDMI-1''"
    by (simp add: hdmi_rotated_fields hdmi_fields)
  show ?thesis using e c disable_dominates [OF e c] by (simp add: n)
qed

text \<open>
  C5 as stated fails: \<open>vga_switched_on\<close> was off when queried and has \<open>is_enabled\<close> true
  through a pending change. The setter flips the entry of the change table, so
  switching the display off again cancels that change: \<open>build_cmd\<close> returns no
  \<open>--off\<close>, and the pending rotation is not suppressed.
\<close>

theorem pending_enable_counterexample:
  "is_enabled vga_switched_on \<and>
   build_cmd (set_is_enabled False vga_switched_on) =
     Inr (Some [Some ''xrandr'', Some ''--output'', Some ''VGA-1'', Some ''--auto'',
                Some ''--rotate'', Some ''right'']) \<and>
   build_cmd (set_is_enabled False vga_switched_on) \<noteq>
     Inr (Some [Some ''xrandr'', Some ''--output'', name vga_switched_on, Some ''--off''])"
  by (simp add: vga_switched_on_fields vga_off_fields set_is_enabled_def build_cmd_def
      any_changed_def no_changes_def)

text \<open>With nothing else pending, nothing is left to apply.\<close>

lemma pending_enable_cancelled:
  "is_enabled (set_is_enabled True vga_off) \<and>
   build_cmd (set_is_enabled False (set_is_enabled True vga_off)) = Inr None"
  by (simp add: set_is_enabled_def vga_off_fields build_cmd_def any_changed_def no_changes_def)


text \<open>
  C9. On a display with no switch-off pending, whose stored direction is not the
  string \<open>LeftOf\<close> itself (the setter stores directions in lower case), assigning the
  position \<open>('LeftOf', 'HDMI-1')\<close> raises nothing and stores \<open>('leftof', 'HDMI-1')\<close>;
  \<open>build_cmd\<close> then returns a command whose last two tokens are \<open>--left-of\<close> and
  \<open>HDMI-1\<close>. The setter checks no direction: it raises for no string.
\<close>

theorem position_command:
  assumes "\<not> (ch_is_enabled (change_table d) \<and> \<not> is_enabled d)"
    and "fst (position d) \<noteq> Some ''LeftOf''"
  shows "(\<exists>d' pre. set_position (Some ''LeftOf'', Some ''HDMI-1'') d = (None, d') \<and>
            position d' = (Some ''leftof'', Some ''HDMI-1'') \<and>
            build_cmd d' = Inr (Some (pre @ [Some ''--left-of'', Some ''HDMI-1'']))) \<and>
         fst (set_position (Some s, t) d) = None"
proof -
  define d' where "d' = d\<lparr>position := (Some ''leftof'', Some ''HDMI-1''),
                           change_table := (change_table d)\<lparr>ch_position := True\<rparr>\<rparr>"
  define pre where "pre =
     [Some ''xrandr'', Some ''--output'', name d] @
     (if ch_resolution (change_table d)
      then [Some ''--mode'', Some (format_resolution (resolution d))] else [Some ''--auto'']) @
     (if is_primary d \<and> ch_is_primary (change_table d) then [Some ''--primary''] else []) @
     (if ch_rotation (change_table d) then [Some ''--rotate'', rotation d] else [])"
  from assms(2) have "(Some ''LeftOf'', Some ''HDMI-1'') \<noteq> position d"
    by (cases "position d") auto
  then have s: "set_position (Some ''LeftOf'', Some ''HDMI-1'') d = (None, d')"
    by (simp add: set_position_def d'_def lower_LeftOf)
  have p: "position d' = (Some ''leftof'', Some ''HDMI-1'')"
    by (simp add: d'_def)
  have b: "build_cmd d' = Inr (Some (pre @ [Some ''--left-of'', Some ''HDMI-1'']))"
    using assms(1)
    by (auto simp: build_cmd_def d'_def pre_def any_changed_def getitem_leftof)
  have v: "fst (set_position (Some s, t) d) = None"
    by (simp add: set_position_def)
  from s p b v show ?thesis by blast
qed

theorem position_command_witness:
  "\<not> (ch_is_enabled (change_table hdmi) \<and> \<not> is_enabled hdmi) \<and>
   fst (position hdmi) \<noteq> Some ''LeftOf'' \<and>
   fst (set_position (Some ''Diagonal'', Some ''HDMI-1'') hdmi) = None \<and>
   build_cmd (snd (set_position (Some ''LeftOf'', Some ''HDMI-1'') hdmi)) =
     Inr (Some [Some ''xrandr'', Some ''--output'', Some ''HDMI-1'', Some ''--auto'',
                Some ''--left-of'', Some ''HDMI-1''])"
proof -
  have a: "\<not> (ch_is_enabled (change_table hdmi) \<and> \<not> is_enabled hdmi)"
    by (simp add: hdmi_fields)
  have b: "fst (position hdmi) \<noteq> Some ''LeftOf''"
    by (simp add: hdmi_fields)
  have c: "build_cmd (snd (set_position (Some ''LeftOf'', Some ''HDMI-1'') hdmi)) =
     Inr (Some [Some ''xrandr'', Some ''--output'', Some ''HDMI-1'', Some ''--auto'',
                Some ''--left-of'', Some ''HDMI-1''])"
    by (simp add: set_position_def hdmi_fields lower_LeftOf build_cmd_def any_changed_def
        no_changes_def getitem_leftof)
  from a b c position_command [OF a b, of "''Diagonal''" "Some ''HDMI-1''"]
  show ?thesis by simp
qed

text \<open>
  The rotation setter and the rotation part of \<open>build_cmd\<close>.
\<close>

lemma set_rotation_raises:
  "fst (set_rotation a d) \<noteq> None \<longleftrightarrow> (\<exists>i. a = Degrees i \<and> i \<notin> {0, 90, 180, 270})"
proof (cases a)
  case (Degrees i)
  show ?thesis
  proof (cases "RotateDirection_getitem_int i")
    case (Inl e)
    with getitem_int_ok [of i] have "i \<notin> {0, 90, 180, 270}" by auto
    with Inl Degrees show ?thesis by (simp add: set_rotation_def)
  next
    case (Inr s)
    with getitem_int_ok [of i] have "i \<in> {0, 90, 180, 270}" by blast
    with Inr Degrees show ?thesis by (simp add: set_rotation_def)
  qed
next
  case (Symbol s)
  then show ?thesis by (simp add: set_rotation_def)
qed

lemma set_rotation_symbol:
  "set_rotation (Symbol s) d =
     (None, if s = rotation d then d
            else d\<lparr>rotation := s, change_table := (change_table d)\<lparr>ch_rotation := True\<rparr>\<rparr>)"
  by (simp add: set_rotation_def)

lemma build_cmd_rotate:
  assumes rot: "ch_rotation (change_table d)"
    and on: "\<not> (ch_is_enabled (change_table d) \<and> \<not> is_enabled d)"
  shows "(\<exists>pre post. build_cmd d = Inr (Some (pre @ [Some ''--rotate'', rotation d] @ post))) \<or>
         (\<exists>e. ch_position (change_table d) \<and> PositionType_getitem (fst (position d)) = Inl e \<and>
              build_cmd d = Inl e)"
proof -
  define pre where "pre =
     [Some ''xrandr'', Some ''--output'', name d] @
     (if ch_resolution (change_table d)
      then [Some ''--mode'', Some (format_resolution (resolution d))] else [Some ''--auto'']) @
     (if is_primary d \<and> ch_is_primary (change_table d) then [Some ''--primary''] else [])"
  have any: "any_changed (change_table d)"
    using rot by (simp add: any_changed_def)
  show ?thesis
  proof (cases "ch_position (change_table d)")
    case False
    with any rot on have "build_cmd d = Inr (Some (pre @ [Some ''--rotate'', rotation d] @ []))"
      by (auto simp: build_cmd_def pre_def)
    then show ?thesis by blast
  next
    case True
    show ?thesis
    proof (cases "PositionType_getitem (fst (position d))")
      case (Inl e)
      with any rot on True have "build_cmd d = Inl e"
        by (auto simp: build_cmd_def)
      with True Inl show ?thesis by blast
    next
      case (Inr flag)
      with any rot on True
      have "build_cmd d =
        Inr (Some (pre @ [Some ''--rotate'', rotation d] @ [Some flag, snd (position d)]))"
        by (auto simp: build_cmd_def pre_def)
      then show ?thesis by blast
    qed
  qed
qed

text \<open>
  C10. The rotation setter raises exactly for an integer outside 0, 90, 180, 270. A
  string is stored as it is given, recognised or not, and marks the rotation changed
  when it differs from the stored one. Whenever the rotation is marked changed and
  the display is not being switched off, \<open>build_cmd\<close> puts \<open>--rotate\<close> and the stored
  rotation into the command, unchecked; the only error it can raise is that of the
  position converter.
\<close>

theorem rotation_not_validated:
  "(fst (set_rotation a d) \<noteq> None \<longleftrightarrow> (\<exists>i. a = Degrees i \<and> i \<notin> {0, 90, 180, 270})) \<and>
   fst (set_rotation (Symbol (Some s)) d) = None \<and>
   rotation (snd (set_rotation (Symbol (Some s)) d)) = Some s \<and>
   (rotation d \<noteq> Some s \<longrightarrow> ch_rotation (change_table (snd (set_rotation (Symbol (Some s)) d)))) \<and>
   (ch_rotation (change_table d) \<and> \<not> (ch_is_enabled (change_table d) \<and> \<not> is_enabled d) \<longrightarrow>
      (\<exists>pre post. build_cmd d = Inr (Some (pre @ [Some ''--rotate'', rotation d] @ post))) \<or>
      (\<exists>e. ch_position (change_table d) \<and> PositionType_getitem (fst (position d)) = Inl e \<and>
           build_cmd d = Inl e))"
  using set_rotation_raises [of a d] build_cmd_rotate [of d]
  by (simp add: set_rotation_symbol)

theorem rotation_not_validated_witness:
  "fst (set_rotation (Degrees 45) hdmi) \<noteq> None \<and>
   fst (set_rotation (Symbol (Some ''Sideways '')) hdmi) = None \<and>
   rotation (snd (set_rotation (Symbol (Some ''Sideways '')) hdmi)) = Some ''Sideways '' \<and>
   build_cmd (snd (set_rotation (Symbol (Some ''Sideways '')) hdmi)) =
     Inr (Some [Some ''xrandr'', Some ''--output'', Some ''HDMI-1'', Some ''--auto'',
                Some ''--rotate'', Some ''Sideways ''])"
proof -
  have "build_cmd (snd (set_rotation (Symbol (Some ''Sideways '')) hdmi)) =
     Inr (Some [Some ''xrandr'', Some ''--output'', Some ''HDMI-1'', Some ''--auto'',
                Some ''--rotate'', Some ''Sideways ''])"
    by (simp add: set_rotation_symbol hdmi_fields build_cmd_def any_changed_def no_changes_def)
  then show ?thesis
    using rotation_not_validated [of "Degrees 45" hdmi "''Sideways ''"] by simp
qed

section \<open>\<open>apply_settings\<close>\<close>

lemma update_from_result:
  assumes "update_from raw d = (r, d')"
  shows "(r = None \<longrightarrow> change_table d' = no_changes) \<and> (r \<noteq> None \<longrightarrow> d' = d)"
  using assms
  by (auto simp: update_from_def Let_def getitem_int_0 reset_change_table_def
      split: option.splits if_splits)

lemma update_setting_query_result:
  assumes "update_setting sys None d w = ((r, d'), w')"
  shows "(r = None \<longrightarrow> change_table d' = no_changes \<and>
           (\<exists>raw. get_display_data sys (name d) w = (Inr raw, w') \<and>
                  update_from raw d = (None, d'))) \<and>
         (r \<noteq> None \<longrightarrow> d' = d)"
proof (cases "get_display_data sys (name d) w")
  case (Pair q w1)
  show ?thesis
  proof (cases q)
    case (Inl e)
    with Pair assms show ?thesis by (auto simp: update_setting_def)
  next
    case (Inr raw)
    with Pair assms have u: "update_from raw d = (r, d')" and w: "w1 = w'"
      by (simp_all add: update_setting_def)
    from update_from_result [OF u] u w Pair Inr show ?thesis by auto
  qed
qed

lemma reset_no_changes: "change_table d = no_changes \<Longrightarrow> reset_change_table d = d"
  by (simp add: reset_change_table_def)

lemma apply_settings_result:
  assumes "apply_settings sys use_default d w = ((r, d'), w')"
  shows "(r = None \<longrightarrow> change_table d' = no_changes \<and>
           (\<exists>raw w1. get_display_data sys (name d) w1 = (Inr raw, w') \<and>
                     update_from raw d = (None, d'))) \<and>
         (r \<noteq> None \<longrightarrow> d' = d)"
proof -
  define phase where "phase =
     (if use_default then
        exec_cmd sys [Some ''xrandr'', Some ''--output'', name d, Some ''--auto''] w
      else if any_changed (change_table d) then
        (case build_cmd d of
           Inl e \<Rightarrow> (Inl e, w)
         | Inr None \<Rightarrow> (Inl TypeError, w)
         | Inr (Some cmd) \<Rightarrow> exec_cmd sys cmd w)
      else (Inr [], w))"
  have a: "apply_settings sys use_default d w =
     (case phase of
        (Inl e, w') \<Rightarrow> ((Some e, d), w')
      | (Inr lines, w') \<Rightarrow>
          (case update_setting sys None d w' of
             ((Some e, d'), w'') \<Rightarrow> ((Some e, d'), w'')
           | ((None, d'), w'') \<Rightarrow> ((None, reset_change_table d'), w'')))"
    by (simp add: apply_settings_def phase_def)
  obtain p w1 where ph: "phase = (p, w1)" by (cases phase)
  show ?thesis
  proof (cases p)
    case (Inl e)
    with a ph assms show ?thesis by simp
  next
    case (Inr lines)
    obtain r2 d2 w2 where u: "update_setting sys None d w1 = ((r2, d2), w2)"
      by (metis surj_pair)
    note q = update_setting_query_result [OF u]
    show ?thesis
    proof (cases r2)
      case None
      with q have c: "change_table d2 = no_changes" by simp
      from None a ph Inr u assms have "r = None" "d' = reset_change_table d2" "w' = w2"
        by simp_all
      with c q None show ?thesis by (auto simp: reset_no_changes)
    next
      case (Some e)
      with a ph Inr u assms have "r = Some e" "d' = d2" by simp_all
      with q Some show ?thesis by simp
    qed
  qed
qed

lemma apply_settings_exec_failure:
  assumes "exec_cmd sys cmd w = (Inl e, w1)"
    and "(use_default \<and> cmd = [Some ''xrandr'', Some ''--output'', name d, Some ''--auto'']) \<or>
         (\<not> use_default \<and> any_changed (change_table d) \<and> build_cmd d = Inr (Some cmd))"
  shows "apply_settings sys use_default d w = ((Some e, d), w1)"
  using assms by (auto simp: apply_settings_def)

lemma build_cmd_not_False:
  "any_changed (change_table d) \<Longrightarrow> build_cmd d \<noteq> Inr None"
  by (simp add: build_cmd_def Let_def split: sum.splits)

lemma apply_settings_synthesis_failure:
  assumes "\<not> use_default" and "any_changed (change_table d)" and "build_cmd d = Inl e"
  shows "apply_settings sys use_default d w = ((Some e, d), w)"
  using assms by (simp add: apply_settings_def)

lemma update_from_error: "update_from raw d = (Some e, d2) \<Longrightarrow> d2 = d"
  by (auto simp: update_from_def Let_def getitem_int_0 split: option.splits if_splits)

lemma update_from_success:
  "update_from raw d = (None, d2) \<Longrightarrow> change_table d2 = no_changes"
  by (auto simp: update_from_def Let_def getitem_int_0 reset_change_table_def
      split: option.splits if_splits)

lemma apply_settings_after_command:
  assumes ran: "(use_default \<and>
        exec_cmd sys [Some ''xrandr'', Some ''--output'', name d, Some ''--auto''] w =
          (Inr lines, w1)) \<or>
       (\<not> use_default \<and> any_changed (change_table d) \<and>
        build_cmd d = Inr (Some cmd) \<and> exec_cmd sys cmd w = (Inr lines, w1)) \<or>
       (\<not> use_default \<and> \<not> any_changed (change_table d) \<and> w1 = w)"
  shows "apply_settings sys use_default d w =
     (case get_display_data sys (name d) w1 of
        (Inl e, w2) \<Rightarrow> ((Some e, d), w2)
      | (Inr raw, w2) \<Rightarrow>
          (case update_from raw d of
             (Some e, d2) \<Rightarrow> ((Some e, d), w2)
           | (None, d2) \<Rightarrow> ((None, d2), w2)))"
proof -
  have u: "(case update_setting sys None d w1 of
              ((Some e, d'), w'') \<Rightarrow> ((Some e, d'), w'')
            | ((None, d'), w'') \<Rightarrow> ((None, reset_change_table d'), w'')) =
     (case get_display_data sys (name d) w1 of
        (Inl e, w2) \<Rightarrow> ((Some e, d), w2)
      | (Inr raw, w2) \<Rightarrow>
          (case update_from raw d of
             (Some e, d2) \<Rightarrow> ((Some e, d), w2)
           | (None, d2) \<Rightarrow> ((None, d2), w2)))"
    by (auto simp: update_setting_def reset_no_changes
        dest: update_from_error update_from_success
        split: prod.splits sum.splits option.splits)
  from ran have "apply_settings sys use_default d w =
     (case update_setting sys None d w1 of
              ((Some e, d'), w'') \<Rightarrow> ((Some e, d'), w'')
            | ((None, d'), w'') \<Rightarrow> ((None, reset_change_table d'), w''))"
    by (auto simp: apply_settings_def)
  with u show ?thesis by simp
qed

text \<open>
  C1, as amended. \<open>apply_settings\<close> has no exception handler. It raises, leaving the
  object as it was before the call with its pending entries, when \<open>build_cmd\<close>
  raises, when the command it runs fails, and when the query or the refresh after
  the command fails. It returns without an exception exactly when the command
  (if one is run) succeeds and the display, queried in the state the command left,
  is refreshed from the queried record; every entry of the change table is then
  false.
\<close>

theorem apply_settings_outcome:
  "(apply_settings sys use_default d w = ((None, d'), w') \<longrightarrow> change_table d' = no_changes) \<and>
   (apply_settings sys use_default d w = ((Some e, d'), w') \<longrightarrow> d' = d) \<and>
   (any_changed (change_table d) \<longrightarrow> build_cmd d \<noteq> Inr None) \<and>
   (\<not> use_default \<and> any_changed (change_table d) \<and> build_cmd d = Inl e \<longrightarrow>
      apply_settings sys use_default d w = ((Some e, d), w)) \<and>
   (exec_cmd sys cmd w = (Inl e, w1) \<and>
    ((use_default \<and> cmd = [Some ''xrandr'', Some ''--output'', name d, Some ''--auto'']) \<or>
     (\<not> use_default \<and> any_changed (change_table d) \<and> build_cmd d = Inr (Some cmd))) \<longrightarrow>
      apply_settings sys use_default d w = ((Some e, d), w1)) \<and>
   ((use_default \<and>
       exec_cmd sys [Some ''xrandr'', Some ''--output'', name d, Some ''--auto''] w =
         (Inr lines, w1)) \<or>
    (\<not> use_default \<and> any_changed (change_table d) \<and>
       build_cmd d = Inr (Some cmd) \<and> exec_cmd sys cmd w = (Inr lines, w1)) \<or>
    (\<not> use_default \<and> \<not> any_changed (change_table d) \<and> w1 = w) \<longrightarrow>
      (get_display_data sys (name d) w1 = (Inl e, w2) \<longrightarrow>
         apply_settings sys use_default d w = ((Some e, d), w2)) \<and>
      (get_display_data sys (name d) w1 = (Inr raw, w2) \<and> update_from raw d = (Some e, d2) \<longrightarrow>
         apply_settings sys use_default d w = ((Some e, d), w2)) \<and>
      (get_display_data sys (name d) w1 = (Inr raw, w2) \<and> update_from raw d = (None, d2) \<longrightarrow>
         apply_settings sys use_default d w = ((None, d2), w2) \<and>
         change_table d2 = no_changes))"
proof -
  have a: "apply_settings sys use_default d w = ((None, d'), w') \<longrightarrow> change_table d' = no_changes"
    using apply_settings_result [of sys use_default d w None d' w'] by blast
  have b: "apply_settings sys use_default d w = ((Some e, d'), w') \<longrightarrow> d' = d"
    using apply_settings_result [of sys use_default d w "Some e" d' w'] by blast
  have c: "any_changed (change_table d) \<longrightarrow> build_cmd d \<noteq> Inr None"
    using build_cmd_not_False [of d] by blast
  have s: "\<not> use_default \<and> any_changed (change_table d) \<and> build_cmd d = Inl e \<longrightarrow>
      apply_settings sys use_default d w = ((Some e, d), w)"
    using apply_settings_synthesis_failure [of use_default d e sys w] by blast
  have f: "exec_cmd sys cmd w = (Inl e, w1) \<and>
    ((use_default \<and> cmd = [Some ''xrandr'', Some ''--output'', name d, Some ''--auto'']) \<or>
     (\<not> use_default \<and> any_changed (change_table d) \<and> build_cmd d = Inr (Some cmd))) \<longrightarrow>
      apply_settings sys use_default d w = ((Some e, d), w1)"
    using apply_settings_exec_failure [of sys cmd w e w1 use_default d] by blast
  have q: "(use_default \<and>
       exec_cmd sys [Some ''xrandr'', Some ''--output'', name d, Some ''--auto''] w =
         (Inr lines, w1)) \<or>
    (\<not> use_default \<and> any_changed (change_table d) \<and>
       build_cmd d = Inr (Some cmd) \<and> exec_cmd sys cmd w = (Inr lines, w1)) \<or>
    (\<not> use_default \<and> \<not> any_changed (change_table d) \<and> w1 = w) \<longrightarrow>
      (get_display_data sys (name d) w1 = (Inl e, w2) \<longrightarrow>
         apply_settings sys use_default d w = ((Some e, d), w2)) \<and>
      (get_display_data sys (name d) w1 = (Inr raw, w2) \<and> update_from raw d = (Some e, d2) \<longrightarrow>
         apply_settings sys use_default d w = ((Some e, d), w2)) \<and>
      (get_display_data sys (name d) w1 = (Inr raw, w2) \<and> update_from raw d = (None, d2) \<longrightarrow>
         apply_settings sys use_default d w = ((None, d2), w2) \<and>
         change_table d2 = no_changes)"
  proof
    assume ran: "(use_default \<and>
       exec_cmd sys [Some ''xrandr'', Some ''--output'', name d, Some ''--auto''] w =
         (Inr lines, w1)) \<or>
      (\<not> use_default \<and> any_changed (change_table d) \<and>
       build_cmd d = Inr (Some cmd) \<and> exec_cmd sys cmd w = (Inr lines, w1)) \<or>
      (\<not> use_default \<and> \<not> any_changed (change_table d) \<and> w1 = w)"
    note r = apply_settings_after_command [OF ran]
    show "(get_display_data sys (name d) w1 = (Inl e, w2) \<longrightarrow>
         apply_settings sys use_default d w = ((Some e, d), w2)) \<and>
      (get_display_data sys (name d) w1 = (Inr raw, w2) \<and> update_from raw d = (Some e, d2) \<longrightarrow>
         apply_settings sys use_default d w = ((Some e, d), w2)) \<and>
      (get_display_data sys (name d) w1 = (Inr raw, w2) \<and> update_from raw d = (None, d2) \<longrightarrow>
         apply_settings sys use_default d w = ((None, d2), w2) \<and>
         change_table d2 = no_changes)"
      using update_from_success [of raw d d2] by (simp add: r)
  qed
  show ?thesis
    using a b c s f q by (intro conjI) assumption+
qed

lemma hdmi_right:
  "update_from raw_hdmi_right hdmi_rotated = (None, hdmi\<lparr>rotation := Some ''right''\<rparr>)"
  by (simp add: update_from_def raw_hdmi_right_def raw_hdmi_def hdmi_rotated_fields hdmi_fields
      truthy_def reset_change_table_def mode_resolution_def mode_1080_def)

theorem apply_settings_outcome_witness:
  "apply_settings tracking_sys False hdmi_rotated False =
     ((None, hdmi\<lparr>rotation := Some ''right''\<rparr>), True) \<and>
   change_table (hdmi\<lparr>rotation := Some ''right''\<rparr>) = no_changes \<and>
   apply_settings tracking_sys False hdmi_bad_position False =
     ((Some (ValueError ''Invalid position''), hdmi_bad_position), False) \<and>
   apply_settings failing_sys True hdmi_rotated () =
     ((Some CalledProcessError, hdmi_rotated), ()) \<and>
   apply_settings (static_sys []) False hdmi_rotated () =
     ((Some (ValueError ''Invalid output''), hdmi_rotated), ())"
proof -
  let ?cmd = "[Some ''xrandr'', Some ''--output'', Some ''HDMI-1'', Some ''--auto'',
               Some ''--rotate'', Some ''right'']"
  have any: "any_changed (change_table hdmi_rotated)"
    by (simp add: hdmi_rotated_fields any_changed_def no_changes_def)
  have cmd: "build_cmd hdmi_rotated = Inr (Some ?cmd)"
    by (simp add: hdmi_rotated_fields hdmi_fields build_cmd_def any_changed_def no_changes_def)
  have nm: "name hdmi_rotated = Some ''HDMI-1''"
    by (simp add: hdmi_rotated_fields hdmi_fields)
  have run: "exec_cmd tracking_sys ?cmd False = (Inr [], True)"
    by (simp add: tracking_sys_def)
  have query: "get_display_data tracking_sys (name hdmi_rotated) True = (Inr raw_hdmi_right, True)"
    by (simp add: get_display_data_def tracking_sys_def nm raw_hdmi_right_def raw_hdmi_def)
  have one: "apply_settings tracking_sys False hdmi_rotated False =
     ((None, hdmi\<lparr>rotation := Some ''right''\<rparr>), True) \<and>
     change_table (hdmi\<lparr>rotation := Some ''right''\<rparr>) = no_changes"
    using any cmd run query hdmi_right
      apply_settings_outcome [where sys = tracking_sys and use_default = False
        and d = hdmi_rotated and w = False and cmd = ?cmd and lines = "[]" and ?w1.0 = True
        and ?w2.0 = True and raw = raw_hdmi_right and ?d2.0 = "hdmi\<lparr>rotation := Some ''right''\<rparr>"
        and e = TypeError and d' = hdmi and w' = True]
    by simp
  have bad: "any_changed (change_table hdmi_bad_position) \<and>
     build_cmd hdmi_bad_position = Inl (ValueError ''Invalid position'')"
    by (simp add: hdmi_bad_position_fields hdmi_fields build_cmd_def any_changed_def
        no_changes_def getitem_diagonal)
  have two: "apply_settings tracking_sys False hdmi_bad_position False =
     ((Some (ValueError ''Invalid position''), hdmi_bad_position), False)"
    using bad
      apply_settings_outcome [where sys = tracking_sys and use_default = False
        and d = hdmi_bad_position and w = False and e = "ValueError ''Invalid position''"
        and cmd = "[]" and lines = "[]" and ?w1.0 = False and ?w2.0 = False
        and raw = raw_hdmi and ?d2.0 = hdmi and d' = hdmi and w' = False]
    by simp
  have fail: "exec_cmd failing_sys
      [Some ''xrandr'', Some ''--output'', name hdmi_rotated, Some ''--auto''] () =
      (Inl CalledProcessError, ())"
    by (simp add: failing_sys_def)
  have three: "apply_settings failing_sys True hdmi_rotated () =
     ((Some CalledProcessError, hdmi_rotated), ())"
    using fail
      apply_settings_outcome [where sys = failing_sys and use_default = True
        and d = hdmi_rotated and w = "()" and e = CalledProcessError and ?w1.0 = "()"
        and cmd = "[Some ''xrandr'', Some ''--output'', name hdmi_rotated, Some ''--auto'']"
        and lines = "[]" and ?w2.0 = "()" and raw = raw_hdmi and ?d2.0 = hdmi
        and d' = hdmi and w' = "()"]
    by simp
  have run2: "exec_cmd (static_sys []) ?cmd () = (Inr [], ())"
    by (simp add: static_sys_def)
  have query2: "get_display_data (static_sys []) (name hdmi_rotated) () =
      (Inl (ValueError ''Invalid output''), ())"
    by (simp add: get_display_data_def static_sys_def)
  have four: "apply_settings (static_sys []) False hdmi_rotated () =
     ((Some (ValueError ''Invalid output''), hdmi_rotated), ())"
    using any cmd run2 query2
      apply_settings_outcome [where sys = "static_sys []" and use_default = False
        and d = hdmi_rotated and w = "()" and cmd = ?cmd and lines = "[]" and ?w1.0 = "()"
        and ?w2.0 = "()" and e = "ValueError ''Invalid output''"
        and raw = raw_hdmi and ?d2.0 = hdmi and d' = hdmi and w' = "()"]
    by simp
  from one two three four show ?thesis by simp
qed

text \<open>
  C1 as stated fails: with the rotation of \<open>hdmi\<close> pending and a command that exits
  with an error, \<open>apply_settings\<close> raises; the display is not queried and the entry
  for the rotation is still true.
\<close>

theorem failed_command_counterexample:
  "apply_settings failing_sys False hdmi_rotated () = ((Some CalledProcessError, hdmi_rotated), ()) \<and>
   ch_rotation (change_table hdmi_rotated)"
  by (simp add: apply_settings_def failing_sys_def hdmi_rotated_fields hdmi_fields
      any_changed_def no_changes_def build_cmd_def)

end
